theory Spec2Isabelle
  imports Main
begin

section \<open>JavaScript strings and the built-ins used by the time parser\<close>

text \<open>
  A JavaScript string is a sequence of UTF-16 code units; a code unit is modelled as its
  number. ASCII literals of the source are written with \<open>js\<close>, so
  \<open>js ''07:00''\<close> is the string \<^verbatim>\<open>'07:00'\<close>.
\<close>

type_synonym jsstring = "nat list"

definition js :: "string \<Rightarrow> jsstring" where
  "js s = map of_char s"

text \<open>The code unit of \<^verbatim>\<open>':'\<close>, the separator of \<^verbatim>\<open>split(':')\<close>.\<close>

definition COLON :: nat where
  "COLON = 58"

text \<open>
  The code units removed by \<^verbatim>\<open>String.prototype.trim\<close> and skipped by
  \<^verbatim>\<open>parseInt\<close> at the start of its argument: ECMAScript's WhiteSpace and
  LineTerminator (TAB, LF, VT, FF, CR, SP, NBSP, U+1680, U+2000 to U+200A, U+2028,
  U+2029, U+202F, U+205F, U+3000, U+FEFF).
\<close>

definition isWhiteSpace :: "nat \<Rightarrow> bool" where
  "isWhiteSpace c \<longleftrightarrow>
     c = 9 \<or> c = 10 \<or> c = 11 \<or> c = 12 \<or> c = 13 \<or> c = 32 \<or> c = 160 \<or> c = 5760 \<or>
     (8192 \<le> c \<and> c \<le> 8202) \<or> c = 8232 \<or> c = 8233 \<or> c = 8239 \<or> c = 8287 \<or>
     c = 12288 \<or> c = 65279"

definition isDigit :: "nat \<Rightarrow> bool" where
  "isDigit c \<longleftrightarrow> 48 \<le> c \<and> c \<le> 57"

text \<open>\<^verbatim>\<open>s.trim()\<close>: white space is removed at both ends.\<close>

definition trim :: "jsstring \<Rightarrow> jsstring" where
  "trim s = rev (dropWhile isWhiteSpace (rev (dropWhile isWhiteSpace s)))"

text \<open>
  \<^verbatim>\<open>s.split(sep)\<close> for a separator of one code unit: the pieces between the
  occurrences of the separator, so one piece more than there are separators;
  \<^verbatim>\<open>''.split(':')\<close> is \<^verbatim>\<open>['']\<close>.
\<close>

fun split :: "nat \<Rightarrow> jsstring \<Rightarrow> jsstring list" where
  "split sep [] = [[]]"
| "split sep (c # cs) =
     (if c = sep then [] # split sep cs
      else (case split sep cs of [] \<Rightarrow> [[c]] | p # ps \<Rightarrow> (c # p) # ps))"

text \<open>The integer written by a sequence of decimal digits.\<close>

definition digits_value :: "jsstring \<Rightarrow> int" where
  "digits_value ds = foldl (\<lambda>acc c. acc * 10 + (int c - 48)) 0 ds"

text \<open>
  \<^verbatim>\<open>parseInt(s, 10)\<close>, with \<open>None\<close> for \<^verbatim>\<open>NaN\<close>: leading white space is
  skipped, one sign is read, and the longest run of decimal digits that follows is the
  number; whatever comes after the digits is ignored. No digit at all gives
  \<^verbatim>\<open>NaN\<close>. The result is a mathematical integer here. JavaScript rounds it to a
  double, which is exact below \<open>2 ^ 53\<close> and monotone above, and \<^verbatim>\<open>-0\<close> compares
  and adds as \<open>0\<close>, so every comparison of the parser with 0, 23 and 59 and every
  returned minute count is the same.
\<close>

definition parseInt :: "jsstring \<Rightarrow> int option" where
  "parseInt s =
     (let S = dropWhile isWhiteSpace s;
          sign = (if S \<noteq> [] \<and> hd S = 45 then - 1 else 1);
          S' = (if S \<noteq> [] \<and> (hd S = 43 \<or> hd S = 45) then tl S else S);
          Z = takeWhile isDigit S'
      in if Z = [] then None else Some (sign * digits_value Z))"

section \<open>timeUtils.ts\<close>

text \<open>
  The four \<^verbatim>\<open>throw new Error(...)\<close> of \<open>timeToMinutes\<close>, one constructor for
  each, named after its message.
\<close>

datatype error =
    InvalidTimeFormat
  | InvalidTimeValues
  | InvalidHourValue
  | InvalidMinuteValue

definition timeToMinutes :: "jsstring \<Rightarrow> error + int" where
  "timeToMinutes time =
     (let parts = split COLON (trim time) in
      if length parts \<noteq> 2 then Inl InvalidTimeFormat
      else
        let hours = parseInt (parts ! 0);
            minutes = parseInt (parts ! 1)
        in case (hours, minutes) of
             (Some h, Some m) \<Rightarrow>
               if h < 0 \<or> h > 23 then Inl InvalidHourValue
               else if m < 0 \<or> m > 59 then Inl InvalidMinuteValue
               else Inr (h * 60 + m)
           | _ \<Rightarrow> Inl InvalidTimeValues)"

text \<open>
  The host clock: \<^verbatim>\<open>new Date()\<close> is a value \<open>now\<close> handed to every function that
  reads the clock, with the two getters the source calls. A function that reads the
  clock twice takes two readings, in the order of the reads.
\<close>

record Date =
  getHours :: int
  getMinutes :: int

definition getCurrentMinutes :: "Date \<Rightarrow> int" where
  "getCurrentMinutes now = getHours now * 60 + getMinutes now"

definition isLightTime :: "Date \<Rightarrow> jsstring \<Rightarrow> jsstring \<Rightarrow> error + bool" where
  "isLightTime now lightStart darkStart =
     (let currentMinutes = getCurrentMinutes now in
      case timeToMinutes lightStart of
        Inl e \<Rightarrow> Inl e
      | Inr lightStartMinutes \<Rightarrow>
          (case timeToMinutes darkStart of
             Inl e \<Rightarrow> Inl e
           | Inr darkStartMinutes \<Rightarrow>
               if lightStartMinutes < darkStartMinutes
               then Inr (currentMinutes \<ge> lightStartMinutes \<and> currentMinutes < darkStartMinutes)
               else Inr (currentMinutes \<ge> lightStartMinutes \<or> currentMinutes < darkStartMinutes)))"

definition getNextBoundary :: "Date \<Rightarrow> jsstring \<Rightarrow> jsstring \<Rightarrow> error + int" where
  "getNextBoundary now lightStart darkStart =
     (let currentMinutes = getCurrentMinutes now in
      case timeToMinutes lightStart of
        Inl e \<Rightarrow> Inl e
      | Inr lightStartMinutes \<Rightarrow>
          (case timeToMinutes darkStart of
             Inl e \<Rightarrow> Inl e
           | Inr darkStartMinutes \<Rightarrow>
               if lightStartMinutes < darkStartMinutes then
                 if currentMinutes < lightStartMinutes then Inr lightStartMinutes
                 else if currentMinutes < darkStartMinutes then Inr darkStartMinutes
                 else Inr (lightStartMinutes + 1440)
               else
                 if currentMinutes \<ge> lightStartMinutes \<or> currentMinutes < darkStartMinutes
                 then Inr darkStartMinutes
                 else Inr lightStartMinutes))"

text \<open>
  \<open>getMsUntilNextBoundary\<close> reads the clock itself (\<open>now\<close>) and then calls
  \<open>getNextBoundary\<close>, which reads it again (\<open>later\<close>).
\<close>

definition getMsUntilNextBoundary ::
  "Date \<Rightarrow> Date \<Rightarrow> jsstring \<Rightarrow> jsstring \<Rightarrow> error + int" where
  "getMsUntilNextBoundary now later lightStart darkStart =
     (let currentMinutes = getCurrentMinutes now in
      case getNextBoundary later lightStart darkStart of
        Inl e \<Rightarrow> Inl e
      | Inr nextBoundary \<Rightarrow>
          let minutesUntilBoundary = nextBoundary - currentMinutes;
              adjustedMinutes =
                (if minutesUntilBoundary < 0 then minutesUntilBoundary + 1440
                 else minutesUntilBoundary)
          in Inr (adjustedMinutes * 60 * 1000))"

definition isValidTimeConfig :: "jsstring \<Rightarrow> jsstring \<Rightarrow> bool" where
  "isValidTimeConfig lightStart darkStart =
     (case timeToMinutes lightStart of
        Inl e \<Rightarrow> False
      | Inr l \<Rightarrow> (case timeToMinutes darkStart of Inl e \<Rightarrow> False | Inr d \<Rightarrow> True))"

text \<open>
  The clock reading at minute \<open>m\<close> of the day, for the theorems that look at the state
  at a chosen minute.
\<close>

definition atMinute :: "int \<Rightarrow> Date" where
  "atMinute m = \<lparr>getHours = m div 60, getMinutes = m mod 60\<rparr>"

subsection \<open>Vocabulary of the specification\<close>

text \<open>
  The specification names two kinds of parse failure. The source throws plain
  \<^verbatim>\<open>Error\<close> objects; the two messages about the shape of the string are
  \<open>InvalidFormat\<close>, the two about the size of a field are \<open>OutOfRange\<close>.
\<close>

datatype ErrorKind = InvalidFormat | OutOfRange

fun kind :: "error \<Rightarrow> ErrorKind" where
  "kind InvalidTimeFormat = InvalidFormat"
| "kind InvalidTimeValues = InvalidFormat"
| "kind InvalidHourValue = OutOfRange"
| "kind InvalidMinuteValue = OutOfRange"

definition failsWith :: "error + int \<Rightarrow> ErrorKind \<Rightarrow> bool" where
  "failsWith r k = (case r of Inl e \<Rightarrow> kind e = k | Inr n \<Rightarrow> False)"

text \<open>
  An \<^verbatim>\<open>"HH:MM"\<close> string written from its two numbers: two decimal digits, a colon,
  two decimal digits.
\<close>

definition pad2 :: "nat \<Rightarrow> jsstring" where
  "pad2 n = [48 + n div 10, 48 + n mod 10]"

definition HHMM :: "nat \<Rightarrow> nat \<Rightarrow> jsstring" where
  "HHMM h m = pad2 h @ COLON # pad2 m"

section \<open>types.ts: modes\<close>

text \<open>
  \<^verbatim>\<open>type Mode = 'auto' | 'light' | 'dark'\<close> is a type of the compiler only: at run
  time a mode is a string, and \<open>getStoredMode\<close> is the place where an arbitrary
  stored string is narrowed to it. \<open>isMode\<close> says that a string is one of the three.
\<close>

type_synonym Mode = jsstring

definition isMode :: "jsstring \<Rightarrow> bool" where
  "isMode m \<longleftrightarrow> m = js ''auto'' \<or> m = js ''light'' \<or> m = js ''dark''"

section \<open>storage.ts\<close>

text \<open>
  A call into the host either returns a value or throws, and may change the state \<open>'s\<close>
  of the host (the content of the store and whatever decides that an access fails).
  A computation is a function from the state before to its outcome and the state after;
  \<open>Inl\<close> is a thrown value.
\<close>

datatype thrown = ReferenceError | HostError jsstring

type_synonym ('a, 's) eff = "'s \<Rightarrow> (thrown + 'a) \<times> 's"

definition js_return :: "'a \<Rightarrow> ('a, 's) eff" where
  "js_return a s = (Inr a, s)"

definition js_throw :: "thrown \<Rightarrow> ('a, 's) eff" where
  "js_throw e s = (Inl e, s)"

text \<open>One statement after another: a throw skips what follows.\<close>

definition js_bind :: "('a, 's) eff \<Rightarrow> ('a \<Rightarrow> ('b, 's) eff) \<Rightarrow> ('b, 's) eff" where
  "js_bind m f s = (case m s of (Inl e, s') \<Rightarrow> (Inl e, s') | (Inr a, s') \<Rightarrow> f a s')"

text \<open>\<^verbatim>\<open>try { body } catch { handler }\<close>; the handler runs in the state the body left.\<close>

definition js_try :: "('a, 's) eff \<Rightarrow> ('a, 's) eff \<Rightarrow> ('a, 's) eff" where
  "js_try body handler s = (case body s of (Inl e, s') \<Rightarrow> handler s' | (Inr a, s') \<Rightarrow> (Inr a, s'))"

text \<open>
  \<^verbatim>\<open>window.localStorage\<close> with the three methods the source calls. Any of them may
  throw (a full quota, storage disabled by the browser); an access to the
  \<^verbatim>\<open>localStorage\<close> property that throws is a method that throws.
\<close>

record 's Storage =
  getItem :: "jsstring \<Rightarrow> (jsstring option, 's) eff"
  setItem :: "jsstring \<Rightarrow> jsstring \<Rightarrow> (unit, 's) eff"
  removeItem :: "jsstring \<Rightarrow> (unit, 's) eff"

text \<open>
  The global \<^verbatim>\<open>window\<close> is \<open>None\<close> where \<^verbatim>\<open>typeof window === 'undefined'\<close>
  (server-side rendering); there an evaluation of \<^verbatim>\<open>window.localStorage\<close> throws
  a \<^verbatim>\<open>ReferenceError\<close>.
\<close>

definition localStorage :: "'s Storage option \<Rightarrow> ('s Storage, 's) eff" where
  "localStorage window = (case window of None \<Rightarrow> js_throw ReferenceError | Some ls \<Rightarrow> js_return ls)"

definition isStorageAvailable :: "'s Storage option \<Rightarrow> (bool, 's) eff" where
  "isStorageAvailable window =
     (if window = None then js_return False
      else
        js_try
          (let testKey = js ''__storage_test__'' in
           js_bind (localStorage window) (\<lambda>ls.
           js_bind (setItem ls testKey testKey) (\<lambda>_.
           js_bind (localStorage window) (\<lambda>ls.
           js_bind (removeItem ls testKey) (\<lambda>_.
           js_return True)))))
          (js_return False))"

definition getStoredMode :: "'s Storage option \<Rightarrow> jsstring \<Rightarrow> (Mode option, 's) eff" where
  "getStoredMode window storageKey =
     js_bind (isStorageAvailable window) (\<lambda>available.
       if \<not> available then js_return None
       else
         js_try
           (js_bind (localStorage window) (\<lambda>ls.
            js_bind (getItem ls storageKey) (\<lambda>stored.
              if stored = Some (js ''auto'') \<or> stored = Some (js ''light'') \<or>
                 stored = Some (js ''dark'')
              then js_return stored
              else js_return None)))
           (js_return None))"

definition storeMode :: "'s Storage option \<Rightarrow> Mode \<Rightarrow> jsstring \<Rightarrow> (bool, 's) eff" where
  "storeMode window mode storageKey =
     js_bind (isStorageAvailable window) (\<lambda>available.
       if \<not> available then js_return False
       else
         js_try
           (js_bind (localStorage window) (\<lambda>ls.
            js_bind (setItem ls storageKey mode) (\<lambda>_.
            js_return True)))
           (js_return False))"

definition clearStoredMode :: "'s Storage option \<Rightarrow> jsstring \<Rightarrow> (bool, 's) eff" where
  "clearStoredMode window storageKey =
     js_bind (isStorageAvailable window) (\<lambda>available.
       if \<not> available then js_return False
       else
         js_try
           (js_bind (localStorage window) (\<lambda>ls.
            js_bind (removeItem ls storageKey) (\<lambda>_.
            js_return True)))
           (js_return False))"

text \<open>\<^verbatim>\<open>getStoredMode(storageKey) ?? defaultMode\<close>.\<close>

definition getStoredModeWithFallback ::
  "'s Storage option \<Rightarrow> jsstring \<Rightarrow> Mode \<Rightarrow> (Mode, 's) eff" where
  "getStoredModeWithFallback window storageKey defaultMode =
     js_bind (getStoredMode window storageKey) (\<lambda>stored.
       case stored of None \<Rightarrow> js_return defaultMode | Some m \<Rightarrow> js_return m)"

section \<open>constants.ts and the configuration record of types.ts\<close>

text \<open>
  \<open>ThemeConfig\<close> without its optional callback \<^verbatim>\<open>onThemeChange\<close>, which
  \<open>DEFAULT_CONFIG\<close> omits as well.
\<close>

record ThemeConfig =
  lightStart :: jsstring
  darkStart :: jsstring
  defaultMode :: Mode
  storageKey :: jsstring
  applyTo :: jsstring

definition DEFAULT_LIGHT_START :: jsstring where
  "DEFAULT_LIGHT_START = js ''07:00''"

definition DEFAULT_DARK_START :: jsstring where
  "DEFAULT_DARK_START = js ''22:00''"

definition DEFAULT_STORAGE_KEY :: jsstring where
  "DEFAULT_STORAGE_KEY = js ''auto-theme-mode''"

definition DEFAULT_APPLY_TO :: jsstring where
  "DEFAULT_APPLY_TO = js ''html''"

definition DEFAULT_MODE :: Mode where
  "DEFAULT_MODE = js ''auto''"

definition DEFAULT_CONFIG :: ThemeConfig where
  "DEFAULT_CONFIG =
     \<lparr>lightStart = DEFAULT_LIGHT_START,
      darkStart = DEFAULT_DARK_START,
      defaultMode = DEFAULT_MODE,
      storageKey = DEFAULT_STORAGE_KEY,
      applyTo = DEFAULT_APPLY_TO\<rparr>"

section \<open>AutoThemeProvider.tsx: the configuration of the provider\<close>

text \<open>
  The \<^verbatim>\<open>config\<close> prop is a \<^verbatim>\<open>Partial<ThemeConfig>\<close>: each property is absent
  (\<open>None\<close>) or present with a value of its type.
\<close>

record PartialThemeConfig =
  lightStart_prop :: "jsstring option"
  darkStart_prop :: "jsstring option"
  defaultMode_prop :: "Mode option"
  storageKey_prop :: "jsstring option"
  applyTo_prop :: "jsstring option"

text \<open>
  \<^verbatim>\<open>{ ...DEFAULT_CONFIG, ...config }\<close>: a property of \<open>config\<close> that is present
  replaces the default.
\<close>

definition spread :: "ThemeConfig \<Rightarrow> PartialThemeConfig \<Rightarrow> ThemeConfig" where
  "spread defaults config =
     \<lparr>lightStart = (case lightStart_prop config of None \<Rightarrow> lightStart defaults | Some v \<Rightarrow> v),
      darkStart = (case darkStart_prop config of None \<Rightarrow> darkStart defaults | Some v \<Rightarrow> v),
      defaultMode = (case defaultMode_prop config of None \<Rightarrow> defaultMode defaults | Some v \<Rightarrow> v),
      storageKey = (case storageKey_prop config of None \<Rightarrow> storageKey defaults | Some v \<Rightarrow> v),
      applyTo = (case applyTo_prop config of None \<Rightarrow> applyTo defaults | Some v \<Rightarrow> v)\<rparr>"

text \<open>
  The first statements of the component: the value of \<^verbatim>\<open>mergedConfig\<close> once the
  time configuration has been validated (the \<^verbatim>\<open>console.warn\<close> is not modelled).
\<close>

definition mergedConfig :: "PartialThemeConfig \<Rightarrow> ThemeConfig" where
  "mergedConfig config =
     (let merged = spread DEFAULT_CONFIG config in
      if \<not> isValidTimeConfig (lightStart merged) (darkStart merged)
      then merged\<lparr>lightStart := lightStart DEFAULT_CONFIG, darkStart := darkStart DEFAULT_CONFIG\<rparr>
      else merged)"

section \<open>Hosts used in the examples\<close>

text \<open>
  A store in memory, whose state is its content; a store that passes the availability
  probe and throws on every access to another key; and the store in memory where every
  write throws (a full quota).
\<close>

definition memoryStorage :: "(jsstring \<rightharpoonup> jsstring) Storage" where
  "memoryStorage =
     \<lparr>getItem = (\<lambda>k s. (Inr (s k), s)),
      setItem = (\<lambda>k v s. (Inr (), s(k \<mapsto> v))),
      removeItem = (\<lambda>k s. (Inr (), s(k := None)))\<rparr>"

definition lockedStorage :: "(jsstring \<rightharpoonup> jsstring) Storage" where
  "lockedStorage =
     \<lparr>getItem = (\<lambda>k. if k = js ''__storage_test__'' then getItem memoryStorage k
                      else js_throw (HostError (js ''SecurityError''))),
      setItem = (\<lambda>k v. if k = js ''__storage_test__'' then setItem memoryStorage k v
                        else js_throw (HostError (js ''QuotaExceededError''))),
      removeItem = (\<lambda>k. if k = js ''__storage_test__'' then removeItem memoryStorage k
                         else js_throw (HostError (js ''SecurityError'')))\<rparr>"

definition fullStorage :: "(jsstring \<rightharpoonup> jsstring) Storage" where
  "fullStorage =
     memoryStorage\<lparr>setItem := (\<lambda>k v. js_throw (HostError (js ''QuotaExceededError'')))\<rparr>"

section \<open>Properties of the built-ins\<close>

lemma split_not_Nil: "split sep s \<noteq> []"
  by (induction s) (auto split: list.splits)

lemma length_split: "length (split sep s) = Suc (count_list s sep)"
  by (induction s) (auto split: list.splits simp: split_not_Nil)

lemma split_no_sep: "sep \<notin> set s \<Longrightarrow> split sep s = [s]"
  by (induction s) auto

lemma split_one_sep:
  "sep \<notin> set h \<Longrightarrow> sep \<notin> set m \<Longrightarrow> split sep (h @ sep # m) = [h, m]"
  by (induction h) (auto simp: split_no_sep)

lemma count_list_dropWhile:
  assumes "\<not> P x"
  shows "count_list (dropWhile P xs) x = count_list xs x"
proof -
  have "x \<notin> set (takeWhile P xs)"
    using assms by (auto dest: set_takeWhileD)
  then have "count_list (takeWhile P xs) x = 0"
    by simp
  moreover have "count_list (takeWhile P xs @ dropWhile P xs) x =
      count_list (takeWhile P xs) x + count_list (dropWhile P xs) x"
    by (rule count_list_append)
  ultimately show ?thesis by simp
qed

lemma COLON_not_WhiteSpace: "\<not> isWhiteSpace COLON"
  by (simp add: isWhiteSpace_def COLON_def)

lemma digit_not_WhiteSpace: "isDigit c \<Longrightarrow> \<not> isWhiteSpace c"
  by (auto simp: isDigit_def isWhiteSpace_def)

text \<open>Trimming neither adds nor removes a colon.\<close>

lemma count_list_trim: "count_list (trim s) COLON = count_list s COLON"
  by (simp add: trim_def count_list_dropWhile COLON_not_WhiteSpace)

lemma one_sep_fields:
  assumes "count_list s sep = 1"
  shows "\<exists>h m. s = h @ sep # m \<and> sep \<notin> set h \<and> sep \<notin> set m"
proof -
  from assms have "count_list s sep = Suc 0" by simp
  then obtain h m where "s = h @ sep # m" "sep \<notin> set h" "count_list m sep = 0"
    using count_list_Suc_split_first by metis
  then show ?thesis by (auto simp: count_list_0_iff)
qed

text \<open>White space around a text that neither starts nor ends with white space is removed.\<close>

lemma trim_surrounded:
  assumes "\<forall>c\<in>set ws1. isWhiteSpace c" and "\<forall>c\<in>set ws2. isWhiteSpace c"
    and "body \<noteq> []" and "\<not> isWhiteSpace (hd body)" and "\<not> isWhiteSpace (last body)"
  shows "trim (ws1 @ body @ ws2) = body"
proof -
  have 1: "dropWhile isWhiteSpace (ws1 @ body @ ws2) = body @ ws2"
    using assms(1,3,4) by (cases body) (simp_all add: dropWhile_append2)
  have "dropWhile isWhiteSpace (rev ws2 @ rev body) = dropWhile isWhiteSpace (rev body)"
    using assms(2) by (intro dropWhile_append2) simp
  also have "\<dots> = rev body"
    using assms(3,5) by (simp add: dropWhile_eq_self_iff hd_rev)
  finally have 2: "dropWhile isWhiteSpace (rev ws2 @ rev body) = rev body" .
  show ?thesis by (simp add: trim_def 1 2)
qed

text \<open>
  \<open>parseInt\<close> reads the leading digits and ignores what follows them: a field such as
  \<^verbatim>\<open>'30pm'\<close> is the number 30.
\<close>

lemma parseInt_digits:
  assumes "ds \<noteq> []" and "\<forall>c\<in>set ds. isDigit c" and "rest = [] \<or> \<not> isDigit (hd rest)"
  shows "parseInt (ds @ rest) = Some (digits_value ds)"
proof -
  obtain d ds' where ds: "ds = d # ds'" using assms(1) by (cases ds) auto
  have d: "isDigit d" using assms(2) ds by simp
  have nws: "\<not> isWhiteSpace d" using d by (rule digit_not_WhiteSpace)
  have nsign: "d \<noteq> 43" "d \<noteq> 45" using d by (auto simp: isDigit_def)
  have tw: "takeWhile isDigit (ds @ rest) = ds"
  proof (cases rest)
    case Nil
    then show ?thesis using assms(2) by simp
  next
    case (Cons r rs)
    then have "\<not> isDigit r" using assms(3) by simp
    then show ?thesis using assms(2) Cons by (simp add: takeWhile_tail)
  qed
  have dw: "dropWhile isWhiteSpace (ds @ rest) = ds @ rest"
    using nws ds by simp
  show ?thesis
    using tw dw nsign assms(1) ds by (simp add: parseInt_def Let_def)
qed

lemma pad2_digits: "n < 100 \<Longrightarrow> \<forall>c\<in>set (pad2 n). isDigit c"
  by (auto simp: pad2_def isDigit_def)

lemma digits_value_pad2: "n < 100 \<Longrightarrow> digits_value (pad2 n) = int n"
  by (simp add: pad2_def digits_value_def) presburger

section \<open>Properties of the time parser\<close>

lemma timeToMinutes_range:
  assumes "timeToMinutes t = Inr n"
  shows "0 \<le> n \<and> n < 1440"
  using assms
  by (auto simp: timeToMinutes_def Let_def split: if_splits option.splits)

lemma timeToMinutes_bad_count:
  assumes "count_list time COLON \<noteq> 1"
  shows "timeToMinutes time = Inl InvalidTimeFormat"
  using assms by (simp add: timeToMinutes_def length_split count_list_trim)

lemma timeToMinutes_fields:
  assumes "trim time = h @ COLON # m" and "COLON \<notin> set h" and "COLON \<notin> set m"
  shows "timeToMinutes time =
           (case (parseInt h, parseInt m) of
              (Some H, Some M) \<Rightarrow>
                if H < 0 \<or> H > 23 then Inl InvalidHourValue
                else if M < 0 \<or> M > 59 then Inl InvalidMinuteValue
                else Inr (H * 60 + M)
            | _ \<Rightarrow> Inl InvalidTimeValues)"
  using assms by (simp add: timeToMinutes_def split_one_sep)

text \<open>
  Two fields of digits only, with values in range and white space around the whole: the
  parse succeeds. This covers \<^verbatim>\<open>'7:00'\<close> as well as \<^verbatim>\<open>'07:00'\<close>.
\<close>

lemma timeToMinutes_digit_fields:
  assumes ws: "\<forall>c\<in>set ws1. isWhiteSpace c" "\<forall>c\<in>set ws2. isWhiteSpace c"
    and hs: "hs \<noteq> []" "\<forall>c\<in>set hs. isDigit c" "digits_value hs \<le> 23" "0 \<le> digits_value hs"
    and ms: "ms \<noteq> []" "\<forall>c\<in>set ms. isDigit c" "digits_value ms \<le> 59" "0 \<le> digits_value ms"
  shows "timeToMinutes (ws1 @ (hs @ COLON # ms) @ ws2) =
           Inr (digits_value hs * 60 + digits_value ms)"
proof -
  have nc: "COLON \<notin> set hs" "COLON \<notin> set ms"
    using hs(2) ms(2) by (auto simp: isDigit_def COLON_def)
  have "\<not> isWhiteSpace (hd (hs @ COLON # ms))"
    using hs(1,2) by (cases hs) (auto dest: digit_not_WhiteSpace)
  moreover have "\<not> isWhiteSpace (last (hs @ COLON # ms))"
    using ms(1,2) by (cases ms rule: rev_cases) (auto dest: digit_not_WhiteSpace)
  ultimately have tr: "trim (ws1 @ (hs @ COLON # ms) @ ws2) = hs @ COLON # ms"
    using ws by (intro trim_surrounded) simp_all
  have ph: "parseInt hs = Some (digits_value hs)"
    using parseInt_digits[OF hs(1,2), of "[]"] by simp
  have pm: "parseInt ms = Some (digits_value ms)"
    using parseInt_digits[OF ms(1,2), of "[]"] by simp
  have "timeToMinutes (ws1 @ (hs @ COLON # ms) @ ws2) =
          (case (parseInt hs, parseInt ms) of
              (Some H, Some M) \<Rightarrow>
                if H < 0 \<or> H > 23 then Inl InvalidHourValue
                else if M < 0 \<or> M > 59 then Inl InvalidMinuteValue
                else Inr (H * 60 + M)
            | _ \<Rightarrow> Inl InvalidTimeValues)"
    by (rule timeToMinutes_fields[OF tr nc])
  then show ?thesis
    using hs(3,4) ms(3,4) by (simp add: ph pm)
qed

text \<open>The same for the two-digit form written by \<open>HHMM\<close>.\<close>

lemma timeToMinutes_HHMM_value:
  assumes "h < 24" and "m < 60"
    and "\<forall>c\<in>set ws1. isWhiteSpace c" and "\<forall>c\<in>set ws2. isWhiteSpace c"
  shows "timeToMinutes (ws1 @ HHMM h m @ ws2) = Inr (int h * 60 + int m) \<and>
         0 \<le> int h * 60 + int m \<and> int h * 60 + int m < 1440"
proof -
  have dh: "\<forall>c\<in>set (pad2 h). isDigit c" and dm: "\<forall>c\<in>set (pad2 m). isDigit c"
    using assms(1,2) pad2_digits[of h] pad2_digits[of m] by simp_all
  have vh: "digits_value (pad2 h) = int h" and vm: "digits_value (pad2 m) = int m"
    using assms(1,2) digits_value_pad2[of h] digits_value_pad2[of m] by simp_all
  have ne: "pad2 h \<noteq> []" "pad2 m \<noteq> []"
    by (simp_all add: pad2_def)
  have "timeToMinutes (ws1 @ (pad2 h @ COLON # pad2 m) @ ws2) =
          Inr (digits_value (pad2 h) * 60 + digits_value (pad2 m))"
    using assms dh dm ne by (intro timeToMinutes_digit_fields) (simp_all add: vh vm)
  then show ?thesis using assms by (simp add: HHMM_def vh vm)
qed

text \<open>
  Every minute of the day is the parse of a string, so the statements below about
  boundary strings that parse to \<open>L\<close> and \<open>D\<close> speak of every pair of minutes in
  \<open>[0, 1440)\<close>.
\<close>

lemma timeToMinutes_onto:
  assumes "0 \<le> n" and "n < 1440"
  shows "timeToMinutes (HHMM (nat (n div 60)) (nat (n mod 60))) = Inr n"
proof -
  have h: "nat (n div 60) < 24" and m: "nat (n mod 60) < 60"
    using assms by simp_all
  have "timeToMinutes ([] @ HHMM (nat (n div 60)) (nat (n mod 60)) @ []) =
          Inr (int (nat (n div 60)) * 60 + int (nat (n mod 60)))"
    using timeToMinutes_HHMM_value[OF h m, of "[]" "[]"] by simp
  moreover have "0 \<le> n div 60" and "0 \<le> n mod 60"
    using assms by simp_all
  moreover have "n div 60 * 60 + n mod 60 = n"
    by simp
  ultimately show ?thesis by simp
qed

text \<open>The parses used in the examples below.\<close>

lemmas parser_defs =
  timeToMinutes_def js_def COLON_def trim_def isWhiteSpace_def parseInt_def isDigit_def
  digits_value_def

lemma parse_0700: "timeToMinutes (js ''07:00'') = Inr 420"
  by (simp add: parser_defs)

lemma parse_2200: "timeToMinutes (js ''22:00'') = Inr 1320"
  by (simp add: parser_defs)

lemma parse_0900: "timeToMinutes (js ''09:00'') = Inr 540"
  by (simp add: parser_defs)

section \<open>Properties of the boundary calculator\<close>

lemma getCurrentMinutes_atMinute: "getCurrentMinutes (atMinute m) = m"
  by (simp add: getCurrentMinutes_def atMinute_def)

lemma isLightTime_parsed:
  assumes "timeToMinutes light = Inr L" and "timeToMinutes dark = Inr D"
  shows "isLightTime now light dark =
           Inr (if L < D then L \<le> getCurrentMinutes now \<and> getCurrentMinutes now < D
                else L \<le> getCurrentMinutes now \<or> getCurrentMinutes now < D)"
  using assms by (simp add: isLightTime_def Let_def)

lemma getNextBoundary_parsed:
  assumes "timeToMinutes light = Inr L" and "timeToMinutes dark = Inr D"
  shows "getNextBoundary now light dark =
           Inr (if L < D
                then (if getCurrentMinutes now < L then L
                      else if getCurrentMinutes now < D then D else L + 1440)
                else (if L \<le> getCurrentMinutes now \<or> getCurrentMinutes now < D then D else L))"
  using assms by (simp add: getNextBoundary_def Let_def)

text \<open>
  The two boundary minutes themselves. The minute of \<open>lightStart\<close> is always light. The
  minute of \<open>darkStart\<close> is dark, except when the two boundaries are the same minute.
\<close>

lemma isLightTime_at_lightStart:
  assumes "timeToMinutes light = Inr L" and "timeToMinutes dark = Inr D"
  shows "isLightTime (atMinute L) light dark = Inr True"
  by (simp add: isLightTime_parsed[OF assms] getCurrentMinutes_atMinute)

lemma isLightTime_at_darkStart:
  assumes "timeToMinutes light = Inr L" and "timeToMinutes dark = Inr D"
  shows "isLightTime (atMinute D) light dark = Inr (L = D)"
  by (auto simp add: isLightTime_parsed[OF assms] getCurrentMinutes_atMinute)

section \<open>Claims about the boundary calculator\<close>

text \<open>
  C3, as the code has it. For boundary strings that parse to the minutes \<open>L\<close> and \<open>D\<close>
  and for every clock reading \<open>C\<close>, \<open>isLightTime\<close> returns a value, never an error:
  for \<open>L < D\<close> it is true exactly when \<open>C \<ge> L \<and> C < D\<close>, and for \<open>L \<ge> D\<close> exactly
  when \<open>C \<ge> L \<or> C < D\<close>. The minute of the light start is light for every pair
  of boundaries. The minute of the dark start is dark when the two boundaries differ;
  when they are the same minute it is light, so there the boundary minute belongs to
  the interval it ends.
\<close>

theorem isLightTime_half_open:
  assumes "timeToMinutes light = Inr L" and "timeToMinutes dark = Inr D"
  shows "isLightTime now light dark =
           Inr (if L < D then getCurrentMinutes now \<ge> L \<and> getCurrentMinutes now < D
                else getCurrentMinutes now \<ge> L \<or> getCurrentMinutes now < D) \<and>
         (getCurrentMinutes now = L \<longrightarrow> isLightTime now light dark = Inr True) \<and>
         (getCurrentMinutes now = D \<and> L \<noteq> D \<longrightarrow>
            isLightTime now light dark = Inr False) \<and>
         (getCurrentMinutes now = D \<and> L = D \<longrightarrow>
            isLightTime now light dark = Inr True)"
proof -
  have eq: "isLightTime now light dark =
      Inr (if L < D then L \<le> getCurrentMinutes now \<and> getCurrentMinutes now < D
           else L \<le> getCurrentMinutes now \<or> getCurrentMinutes now < D)"
    by (rule isLightTime_parsed[OF assms])
  have atL: "getCurrentMinutes now = L \<longrightarrow> isLightTime now light dark = Inr True"
    by (simp add: eq)
  have atD: "getCurrentMinutes now = D \<and> L \<noteq> D \<longrightarrow>
      isLightTime now light dark = Inr False"
    by (auto simp: eq)
  have atLD: "getCurrentMinutes now = D \<and> L = D \<longrightarrow>
      isLightTime now light dark = Inr True"
    by (simp add: eq)
  from eq atL atD atLD show ?thesis by simp
qed

theorem isLightTime_half_open_witness:
  "timeToMinutes (js ''07:00'') = Inr 420 \<and> timeToMinutes (js ''22:00'') = Inr 1320 \<and>
   isLightTime \<lparr>getHours = 8, getMinutes = 20\<rparr> (js ''07:00'') (js ''22:00'') = Inr True \<and>
   getCurrentMinutes \<lparr>getHours = 7, getMinutes = 0\<rparr> = 420 \<and>
   isLightTime \<lparr>getHours = 7, getMinutes = 0\<rparr> (js ''07:00'') (js ''22:00'') = Inr True \<and>
   getCurrentMinutes \<lparr>getHours = 22, getMinutes = 0\<rparr> = 1320 \<and> (420::int) \<noteq> 1320 \<and>
   isLightTime \<lparr>getHours = 22, getMinutes = 0\<rparr> (js ''07:00'') (js ''22:00'') = Inr False \<and>
   isLightTime \<lparr>getHours = 0, getMinutes = 30\<rparr> (js ''22:00'') (js ''07:00'') = Inr True \<and>
   isLightTime \<lparr>getHours = 13, getMinutes = 20\<rparr> (js ''22:00'') (js ''07:00'') = Inr False \<and>
   timeToMinutes (js ''09:00'') = Inr 540 \<and>
   getCurrentMinutes \<lparr>getHours = 9, getMinutes = 0\<rparr> = 540 \<and>
   isLightTime \<lparr>getHours = 9, getMinutes = 0\<rparr> (js ''09:00'') (js ''09:00'') = Inr True"
  using isLightTime_half_open[OF parse_0700 parse_2200, of "\<lparr>getHours = 8, getMinutes = 20\<rparr>"]
    isLightTime_half_open[OF parse_0700 parse_2200, of "\<lparr>getHours = 7, getMinutes = 0\<rparr>"]
    isLightTime_half_open[OF parse_0700 parse_2200, of "\<lparr>getHours = 22, getMinutes = 0\<rparr>"]
    isLightTime_half_open[OF parse_2200 parse_0700, of "\<lparr>getHours = 0, getMinutes = 30\<rparr>"]
    isLightTime_half_open[OF parse_2200 parse_0700, of "\<lparr>getHours = 13, getMinutes = 20\<rparr>"]
    isLightTime_half_open[OF parse_0900 parse_0900, of "\<lparr>getHours = 9, getMinutes = 0\<rparr>"]
  by (simp add: parse_0700 parse_2200 parse_0900 getCurrentMinutes_def)

text \<open>
  C3 as stated fails where the two boundaries are the same minute: with both at
  \<^verbatim>\<open>'09:00'\<close> the minute 09:00 starts the dark interval and ends the light one, and
  the state at 09:00 is light.
\<close>

theorem isLightTime_half_open_counterexample:
  "timeToMinutes (js ''09:00'') = Inr 540 \<and>
   getCurrentMinutes \<lparr>getHours = 9, getMinutes = 0\<rparr> = 540 \<and>
   isLightTime \<lparr>getHours = 9, getMinutes = 0\<rparr> (js ''09:00'') (js ''09:00'') = Inr True \<and>
   isLightTime \<lparr>getHours = 9, getMinutes = 0\<rparr> (js ''09:00'') (js ''09:00'') \<noteq> Inr False"
  by (simp add: isLightTime_def getCurrentMinutes_def parse_0900)

text \<open>
  C2, as the code has it. When both boundary strings parse to the same minute,
  \<open>isLightTime\<close> returns true at every clock reading: the configuration is always
  light, not always dark.
\<close>

theorem isLightTime_equal_boundaries:
  assumes "timeToMinutes light = Inr L" and "timeToMinutes dark = Inr L"
  shows "isLightTime now light dark = Inr True"
  using assms by (auto simp add: isLightTime_def Let_def)

theorem isLightTime_equal_boundaries_witness:
  "timeToMinutes (js ''09:00'') = Inr 540 \<and>
   isLightTime \<lparr>getHours = 15, getMinutes = 45\<rparr> (js ''09:00'') (js ''09:00'') = Inr True"
  using isLightTime_equal_boundaries[OF parse_0900 parse_0900,
      of "\<lparr>getHours = 15, getMinutes = 45\<rparr>"]
  by (simp add: parse_0900)

text \<open>
  C2 as stated fails: with both boundaries at \<^verbatim>\<open>'09:00'\<close> the state at midnight is
  light.
\<close>

theorem isLightTime_equal_boundaries_counterexample:
  "timeToMinutes (js ''09:00'') = Inr 540 \<and>
   isLightTime \<lparr>getHours = 0, getMinutes = 0\<rparr> (js ''09:00'') (js ''09:00'') = Inr True"
  by (simp add: isLightTime_def getCurrentMinutes_def parse_0900)

text \<open>
  C1, as the code has it. For boundary strings that parse to two different minutes and
  for every clock reading, \<open>getNextBoundary\<close> returns a minute \<open>nb\<close> at which the
  state changes: the state at \<open>(nb - 1) mod 1440\<close> is the opposite of the state at
  \<open>nb mod 1440\<close>.
\<close>

theorem getNextBoundary_state_change:
  assumes "timeToMinutes light = Inr L" and "timeToMinutes dark = Inr D"
    and "L \<noteq> D"
  shows "\<exists>nb b. getNextBoundary now light dark = Inr nb \<and>
           isLightTime (atMinute ((nb - 1) mod 1440)) light dark = Inr (\<not> b) \<and>
           isLightTime (atMinute (nb mod 1440)) light dark = Inr b"
proof -
  have rL: "0 \<le> L" "L < 1440" and rD: "0 \<le> D" "D < 1440"
    using assms timeToMinutes_range by blast+
  define C where "C = getCurrentMinutes now"
  define nb where "nb = (if L < D
                then (if C < L then L else if C < D then D else L + 1440)
                else (if L \<le> C \<or> C < D then D else L))"
  have nb: "getNextBoundary now light dark = Inr nb"
    by (simp add: getNextBoundary_parsed[OF assms(1,2)] nb_def C_def)
  have cases: "nb = L \<or> nb = D \<or> nb = L + 1440"
    by (simp add: nb_def)
  have modL: "L mod 1440 = L" "(L + 1440) mod 1440 = L" and modD: "D mod 1440 = D"
    using rL rD by simp_all
  have predL: "(L - 1) mod 1440 = (if L = 0 then 1439 else L - 1)"
    using rL by simp
  have predL': "(L + 1440 - 1) mod 1440 = (if L = 0 then 1439 else L - 1)"
    using rL predL by (metis add.commute add_diff_eq mod_add_self1)
  have predD: "(D - 1) mod 1440 = (if D = 0 then 1439 else D - 1)"
    using rD by simp
  have atL: "isLightTime (atMinute L) light dark = Inr True"
    by (rule isLightTime_at_lightStart[OF assms(1,2)])
  have beforeL: "isLightTime (atMinute (if L = 0 then 1439 else L - 1)) light dark = Inr False"
    using assms(3) rL rD
    by (auto simp add: isLightTime_parsed[OF assms(1,2)] getCurrentMinutes_atMinute)
  have atD: "isLightTime (atMinute D) light dark = Inr False"
    using assms(3) by (simp add: isLightTime_at_darkStart[OF assms(1,2)])
  have beforeD: "isLightTime (atMinute (if D = 0 then 1439 else D - 1)) light dark = Inr True"
    using assms(3) rL rD
    by (auto simp add: isLightTime_parsed[OF assms(1,2)] getCurrentMinutes_atMinute)
  from cases consider "nb = L" | "nb = D" | "nb = L + 1440" by blast
  then show ?thesis
  proof cases
    case 1
    then show ?thesis
      using nb atL beforeL modL predL by (intro exI[of _ nb] exI[of _ True]) simp
  next
    case 2
    then show ?thesis
      using nb atD beforeD modD predD by (intro exI[of _ nb] exI[of _ False]) simp
  next
    case 3
    then show ?thesis
      using nb atL beforeL modL predL' by (intro exI[of _ nb] exI[of _ True]) simp
  qed
qed

theorem getNextBoundary_state_change_witness:
  "timeToMinutes (js ''07:00'') = Inr 420 \<and> timeToMinutes (js ''22:00'') = Inr 1320 \<and>
   (420::int) \<noteq> 1320 \<and>
   getNextBoundary \<lparr>getHours = 8, getMinutes = 20\<rparr> (js ''07:00'') (js ''22:00'') = Inr 1320 \<and>
   (\<exists>nb b. getNextBoundary \<lparr>getHours = 8, getMinutes = 20\<rparr> (js ''07:00'') (js ''22:00'') = Inr nb \<and>
      isLightTime (atMinute ((nb - 1) mod 1440)) (js ''07:00'') (js ''22:00'') = Inr (\<not> b) \<and>
      isLightTime (atMinute (nb mod 1440)) (js ''07:00'') (js ''22:00'') = Inr b)"
  using getNextBoundary_state_change[OF parse_0700 parse_2200,
      of "\<lparr>getHours = 8, getMinutes = 20\<rparr>"]
  by (simp add: parse_0700 parse_2200 getNextBoundary_def getCurrentMinutes_def)

text \<open>
  C1 as stated fails when the two boundaries are the same minute: with both at
  \<^verbatim>\<open>'09:00'\<close> and the clock at midnight the next boundary is minute 540, and the state
  is light at minute 539 and at minute 540.
\<close>

theorem getNextBoundary_state_change_counterexample:
  "getNextBoundary \<lparr>getHours = 0, getMinutes = 0\<rparr> (js ''09:00'') (js ''09:00'') = Inr 540 \<and>
   isLightTime (atMinute ((540 - 1) mod 1440)) (js ''09:00'') (js ''09:00'') = Inr True \<and>
   isLightTime (atMinute (540 mod 1440)) (js ''09:00'') (js ''09:00'') = Inr True"
  by (simp add: getNextBoundary_def isLightTime_def getCurrentMinutes_def atMinute_def parse_0900)

text \<open>
  C4, as the code has it. In the wrapping case \<open>L \<ge> D\<close>, while the state is light
  \<open>getNextBoundary\<close> returns \<open>D\<close>, both for \<open>C < D\<close> and for \<open>C \<ge> L\<close>: it never
  adds 1440 there, and the step to the next day is left to \<open>getMsUntilNextBoundary\<close>.
  While the state is dark (\<open>D \<le> C < L\<close>) it returns \<open>L\<close>.
\<close>

theorem getNextBoundary_wrapping:
  assumes "timeToMinutes light = Inr L" and "timeToMinutes dark = Inr D"
    and "L \<ge> D"
  shows "(getCurrentMinutes now < D \<longrightarrow> getNextBoundary now light dark = Inr D) \<and>
         (getCurrentMinutes now \<ge> L \<longrightarrow> getNextBoundary now light dark = Inr D) \<and>
         (D \<le> getCurrentMinutes now \<and> getCurrentMinutes now < L \<longrightarrow>
            getNextBoundary now light dark = Inr L)"
  using assms by (auto simp add: getNextBoundary_def Let_def)

theorem getNextBoundary_wrapping_witness:
  "timeToMinutes (js ''22:00'') = Inr 1320 \<and> timeToMinutes (js ''07:00'') = Inr 420 \<and>
   (1320::int) \<ge> 420 \<and>
   getCurrentMinutes \<lparr>getHours = 0, getMinutes = 30\<rparr> < 420 \<and>
   getNextBoundary \<lparr>getHours = 0, getMinutes = 30\<rparr> (js ''22:00'') (js ''07:00'') = Inr 420 \<and>
   getCurrentMinutes \<lparr>getHours = 22, getMinutes = 30\<rparr> \<ge> 1320 \<and>
   getNextBoundary \<lparr>getHours = 22, getMinutes = 30\<rparr> (js ''22:00'') (js ''07:00'') = Inr 420 \<and>
   420 \<le> getCurrentMinutes \<lparr>getHours = 13, getMinutes = 20\<rparr> \<and>
   getCurrentMinutes \<lparr>getHours = 13, getMinutes = 20\<rparr> < 1320 \<and>
   getNextBoundary \<lparr>getHours = 13, getMinutes = 20\<rparr> (js ''22:00'') (js ''07:00'') = Inr 1320"
  using getNextBoundary_wrapping[OF parse_2200 parse_0700, of "\<lparr>getHours = 0, getMinutes = 30\<rparr>"]
    getNextBoundary_wrapping[OF parse_2200 parse_0700, of "\<lparr>getHours = 22, getMinutes = 30\<rparr>"]
    getNextBoundary_wrapping[OF parse_2200 parse_0700, of "\<lparr>getHours = 13, getMinutes = 20\<rparr>"]
  by (simp add: parse_0700 parse_2200 getCurrentMinutes_def)

text \<open>
  C4 as stated fails for \<open>C \<ge> L\<close>: with light from \<^verbatim>\<open>'22:00'\<close>, dark from
  \<^verbatim>\<open>'07:00'\<close> and the clock at 23:00 the result is 420, not 420 + 1440.
\<close>

theorem getNextBoundary_wrapping_counterexample:
  "timeToMinutes (js ''22:00'') = Inr 1320 \<and> timeToMinutes (js ''07:00'') = Inr 420 \<and>
   getCurrentMinutes \<lparr>getHours = 23, getMinutes = 0\<rparr> = 1380 \<and>
   getNextBoundary \<lparr>getHours = 23, getMinutes = 0\<rparr> (js ''22:00'') (js ''07:00'') = Inr 420 \<and>
   getNextBoundary \<lparr>getHours = 23, getMinutes = 0\<rparr> (js ''22:00'') (js ''07:00'') \<noteq> Inr (420 + 1440)"
  by (simp add: getNextBoundary_def getCurrentMinutes_def parse_0700 parse_2200)




text \<open>
  When the minute changes between the two reads the bounds are not kept: a boundary
  passed between the reads gives a delay of 0 for two different boundaries, and a clock
  that jumps forward gives a delay of more than a day.
\<close>

lemma parse_0659: "timeToMinutes (js ''06:59'') = Inr 419"
  by (simp add: parser_defs)

lemma parse_0210: "timeToMinutes (js ''02:10'') = Inr 130"
  by (simp add: parser_defs)

lemma parse_0250: "timeToMinutes (js ''02:50'') = Inr 170"
  by (simp add: parser_defs)

lemma getMsUntilNextBoundary_minute_tick:
  "getMsUntilNextBoundary \<lparr>getHours = 6, getMinutes = 59\<rparr> \<lparr>getHours = 7, getMinutes = 0\<rparr>
     (js ''07:00'') (js ''06:59'') = Inr 0"
  by (simp add: getMsUntilNextBoundary_def getNextBoundary_def getCurrentMinutes_def
      parse_0700 parse_0659)

lemma getMsUntilNextBoundary_clock_jump:
  "getMsUntilNextBoundary \<lparr>getHours = 1, getMinutes = 59\<rparr> \<lparr>getHours = 3, getMinutes = 0\<rparr>
     (js ''02:10'') (js ''02:50'') = Inr 87060000"
  by (simp add: getMsUntilNextBoundary_def getNextBoundary_def getCurrentMinutes_def
      parse_0210 parse_0250)

section \<open>Claims about the time parser\<close>

text \<open>
  When \<open>parseInt\<close> gives a number: exactly when its argument is white space (possibly
  none), then at most one sign, then a decimal digit, then anything.
\<close>

lemma parseInt_number:
  assumes "\<forall>c\<in>set ws. isWhiteSpace c" and "sg = [] \<or> sg = [43] \<or> sg = [45]"
    and "isDigit d"
  shows "parseInt (ws @ sg @ d # rest) \<noteq> None"
proof -
  have ndws: "\<not> isWhiteSpace d" using assms(3) by (rule digit_not_WhiteSpace)
  have nsws: "\<not> isWhiteSpace 43" "\<not> isWhiteSpace 45" by (simp_all add: isWhiteSpace_def)
  have nd: "d \<noteq> 43" "d \<noteq> 45" using assms(3) by (auto simp: isDigit_def)
  have "dropWhile isWhiteSpace (ws @ sg @ d # rest) = dropWhile isWhiteSpace (sg @ d # rest)"
    using assms(1) by (intro dropWhile_append2) simp
  also have "\<dots> = sg @ d # rest"
    using assms(2) ndws nsws by auto
  finally have S: "dropWhile isWhiteSpace (ws @ sg @ d # rest) = sg @ d # rest" .
  show ?thesis
    using assms(2,3) nd by (auto simp: parseInt_def S Let_def)
qed

lemma parseInt_number_shape:
  assumes "parseInt f \<noteq> None"
  shows "\<exists>ws sg d rest. f = ws @ sg @ d # rest \<and> (\<forall>c\<in>set ws. isWhiteSpace c) \<and>
           (sg = [] \<or> sg = [43] \<or> sg = [45]) \<and> isDigit d"
proof -
  define ws where "ws = takeWhile isWhiteSpace f"
  define S where "S = dropWhile isWhiteSpace f"
  have f: "f = ws @ S" by (simp add: ws_def S_def)
  have ws: "\<forall>c\<in>set ws. isWhiteSpace c" by (auto simp: ws_def dest: set_takeWhileD)
  show ?thesis
  proof (cases S)
    case Nil
    from assms show ?thesis
      unfolding parseInt_def S_def[symmetric] Nil by simp
  next
    case (Cons c cs)
    show ?thesis
    proof (cases "c = 43 \<or> c = 45")
      case True
      then have "takeWhile isDigit cs \<noteq> []"
        using assms Cons by (auto simp: parseInt_def S_def[symmetric] Let_def split: if_splits)
      then obtain d rest where cs: "cs = d # rest" and d: "isDigit d"
        by (cases cs) (auto split: if_splits)
      have "f = ws @ [c] @ d # rest" using f Cons cs by simp
      then show ?thesis using ws True d by blast
    next
      case False
      then have "takeWhile isDigit (c # cs) \<noteq> []"
        using assms Cons by (auto simp: parseInt_def S_def[symmetric] Let_def split: if_splits)
      then have d: "isDigit c" by (auto split: if_splits)
      have "f = ws @ [] @ c # cs" using f Cons by simp
      then show ?thesis using ws d by blast
    qed
  qed
qed

text \<open>
  What the parser does on every input. It fails with \<open>InvalidFormat\<close> when the input
  does not hold exactly one colon, and when \<open>parseInt\<close> gives \<^verbatim>\<open>NaN\<close> for one of the
  two fields of the trimmed input, that is when the field does not start, after
  optional white space and one optional sign, with a decimal digit. It fails with
  \<open>OutOfRange\<close> when both fields give a number and the hours are outside \<open>[0,23]\<close> or the
  minutes outside \<open>[0,59]\<close>. On every other input it returns
  \<open>hours * 60 + minutes\<close>.
\<close>

lemma timeToMinutes_outcomes:
  "(count_list time COLON \<noteq> 1 \<longrightarrow> failsWith (timeToMinutes time) InvalidFormat) \<and>
   (count_list time COLON = 1 \<longrightarrow>
      (\<exists>h m. trim time = h @ COLON # m \<and> COLON \<notin> set h \<and> COLON \<notin> set m)) \<and>
   (trim time = h @ COLON # m \<and> COLON \<notin> set h \<and> COLON \<notin> set m \<longrightarrow>
      ((parseInt h = None \<or> parseInt m = None) \<longrightarrow>
          failsWith (timeToMinutes time) InvalidFormat) \<and>
      (parseInt h = Some H \<and> parseInt m = Some M \<longrightarrow>
          ((H < 0 \<or> 23 < H \<or> M < 0 \<or> 59 < M) \<longrightarrow>
              failsWith (timeToMinutes time) OutOfRange) \<and>
          (0 \<le> H \<and> H \<le> 23 \<and> 0 \<le> M \<and> M \<le> 59 \<longrightarrow>
              timeToMinutes time = Inr (H * 60 + M))))"
proof (intro conjI impI)
  assume "count_list time COLON \<noteq> 1"
  then show "failsWith (timeToMinutes time) InvalidFormat"
    by (simp add: timeToMinutes_bad_count failsWith_def)
next
  assume "count_list time COLON = 1"
  then have "count_list (trim time) COLON = 1" by (simp add: count_list_trim)
  then show "\<exists>h m. trim time = h @ COLON # m \<and> COLON \<notin> set h \<and> COLON \<notin> set m"
    by (rule one_sep_fields)
next
  assume f: "trim time = h @ COLON # m \<and> COLON \<notin> set h \<and> COLON \<notin> set m"
    and "parseInt h = None \<or> parseInt m = None"
  then show "failsWith (timeToMinutes time) InvalidFormat"
    by (auto simp: timeToMinutes_fields failsWith_def split: option.splits)
next
  assume f: "trim time = h @ COLON # m \<and> COLON \<notin> set h \<and> COLON \<notin> set m"
    and "parseInt h = Some H \<and> parseInt m = Some M"
    and "H < 0 \<or> 23 < H \<or> M < 0 \<or> 59 < M"
  then show "failsWith (timeToMinutes time) OutOfRange"
    by (auto simp: timeToMinutes_fields failsWith_def)
next
  assume f: "trim time = h @ COLON # m \<and> COLON \<notin> set h \<and> COLON \<notin> set m"
    and "parseInt h = Some H \<and> parseInt m = Some M"
    and "0 \<le> H \<and> H \<le> 23 \<and> 0 \<le> M \<and> M \<le> 59"
  then show "timeToMinutes time = Inr (H * 60 + M)"
    by (auto simp: timeToMinutes_fields)
qed

lemma timeToMinutes_outcomes_examples:
  "failsWith (timeToMinutes (js ''07:00:00'')) InvalidFormat \<and>
   failsWith (timeToMinutes (js ''0700'')) InvalidFormat \<and>
   failsWith (timeToMinutes (js ''ab:00'')) InvalidFormat \<and>
   failsWith (timeToMinutes (js ''24:00'')) OutOfRange \<and>
   failsWith (timeToMinutes (js ''12:60'')) OutOfRange \<and>
   timeToMinutes (js ''7:05'') = Inr 425"
  using timeToMinutes_outcomes[of "js ''07:00:00''"]
    timeToMinutes_outcomes[of "js ''0700''"]
    timeToMinutes_outcomes[of "js ''ab:00''" "js ''ab''" "js ''00''"]
    timeToMinutes_outcomes[of "js ''24:00''" "js ''24''" "js ''00''" 24 0]
    timeToMinutes_outcomes[of "js ''12:60''" "js ''12''" "js ''60''" 12 60]
    timeToMinutes_outcomes[of "js ''7:05''" "js ''7''" "js ''05''" 7 5]
  by (simp add: js_def COLON_def trim_def isWhiteSpace_def parseInt_def isDigit_def
      digits_value_def)

text \<open>
  C6. The claim asks for an \<open>InvalidFormat\<close> failure whenever a field is not an integer,
  as the message of the source does (\<^verbatim>\<open>Hours and minutes must be numbers\<close>). The code
  does not do that for a field with text after its digits: the input \<^verbatim>\<open>'07:30pm'\<close> has
  one colon, its minutes field is \<^verbatim>\<open>'30pm'\<close>, \<open>parseInt\<close> reads that field as 30, and
  the parse succeeds with 450 instead of failing.
\<close>

theorem timeToMinutes_trailing_text:
  "count_list (js ''07:30pm'') COLON = 1 \<and>
   trim (js ''07:30pm'') = js ''07'' @ COLON # js ''30pm'' \<and>
   parseInt (js ''30pm'') = Some 30 \<and>
   timeToMinutes (js ''07:30pm'') = Inr 450 \<and>
   \<not> failsWith (timeToMinutes (js ''07:30pm'')) InvalidFormat"
  by (simp add: parser_defs failsWith_def)

text \<open>
  C7. For hours in \<open>[0,23]\<close> and minutes in \<open>[0,59]\<close>, written as \<^verbatim>\<open>"HH:MM"\<close> with any
  white space before and after, \<open>timeToMinutes\<close> succeeds and returns
  \<open>hours * 60 + minutes\<close>, which lies in \<open>[0, 1440)\<close>. The result is a function of the
  string alone.
\<close>

theorem timeToMinutes_HHMM:
  assumes "h < 24" and "m < 60"
    and "\<forall>c\<in>set ws1. isWhiteSpace c" and "\<forall>c\<in>set ws2. isWhiteSpace c"
  shows "timeToMinutes (ws1 @ HHMM h m @ ws2) = Inr (int h * 60 + int m) \<and>
         0 \<le> int h * 60 + int m \<and> int h * 60 + int m < 1440"
  using assms by (rule timeToMinutes_HHMM_value)

theorem timeToMinutes_HHMM_witness:
  "(7::nat) < 24 \<and> (5::nat) < 60 \<and> isWhiteSpace 32 \<and> isWhiteSpace 9 \<and>
   [32, 32] @ HHMM 7 5 @ [9] = js (''  07:05'' @ [CHR 0x09]) \<and>
   timeToMinutes ([32, 32] @ HHMM 7 5 @ [9]) = Inr 425"
  using timeToMinutes_HHMM[of 7 5 "[32, 32]" "[9]"]
  by (simp add: isWhiteSpace_def HHMM_def pad2_def COLON_def js_def)

section \<open>Claims about the configuration of the provider\<close>

lemma isValidTimeConfig_iff:
  "isValidTimeConfig a b \<longleftrightarrow> (\<exists>L D. timeToMinutes a = Inr L \<and> timeToMinutes b = Inr D)"
  by (auto simp: isValidTimeConfig_def split: sum.splits)

lemma DEFAULT_CONFIG_valid:
  "isValidTimeConfig (lightStart DEFAULT_CONFIG) (darkStart DEFAULT_CONFIG)"
  by (simp add: isValidTimeConfig_iff DEFAULT_CONFIG_def DEFAULT_LIGHT_START_def
      DEFAULT_DARK_START_def parse_0700 parse_2200)

text \<open>
  C8. When \<open>isValidTimeConfig\<close> rejects the merged boundary strings, the provider
  replaces them with \<^verbatim>\<open>'07:00'\<close> and \<^verbatim>\<open>'22:00'\<close>; in every case the configuration it
  goes on with holds two boundary strings that parse.
\<close>

theorem mergedConfig_parseable:
  "(\<not> isValidTimeConfig (lightStart (spread DEFAULT_CONFIG config))
        (darkStart (spread DEFAULT_CONFIG config)) \<longrightarrow>
      lightStart (mergedConfig config) = js ''07:00'' \<and>
      darkStart (mergedConfig config) = js ''22:00'') \<and>
   isValidTimeConfig (lightStart (mergedConfig config)) (darkStart (mergedConfig config)) \<and>
   (\<exists>L D. timeToMinutes (lightStart (mergedConfig config)) = Inr L \<and>
          timeToMinutes (darkStart (mergedConfig config)) = Inr D)"
proof -
  have 1: "\<not> isValidTimeConfig (lightStart (spread DEFAULT_CONFIG config))
        (darkStart (spread DEFAULT_CONFIG config)) \<longrightarrow>
      lightStart (mergedConfig config) = js ''07:00'' \<and>
      darkStart (mergedConfig config) = js ''22:00''"
    by (simp add: mergedConfig_def Let_def DEFAULT_CONFIG_def DEFAULT_LIGHT_START_def
        DEFAULT_DARK_START_def)
  have 2: "isValidTimeConfig (lightStart (mergedConfig config)) (darkStart (mergedConfig config))"
    using DEFAULT_CONFIG_valid by (simp add: mergedConfig_def Let_def)
  from 2 have 3: "\<exists>L D. timeToMinutes (lightStart (mergedConfig config)) = Inr L \<and>
          timeToMinutes (darkStart (mergedConfig config)) = Inr D"
    by (simp add: isValidTimeConfig_iff)
  from 1 2 3 show ?thesis by blast
qed

lemma parse_2500: "timeToMinutes (js ''25:00'') = Inl InvalidHourValue"
  by (simp add: parser_defs)

theorem mergedConfig_parseable_witness:
  "\<not> isValidTimeConfig (js ''25:00'') (js ''20:00'') \<and>
   lightStart (mergedConfig \<lparr>lightStart_prop = Some (js ''25:00''),
      darkStart_prop = Some (js ''20:00''), defaultMode_prop = None, storageKey_prop = None,
      applyTo_prop = None\<rparr>) = js ''07:00'' \<and>
   darkStart (mergedConfig \<lparr>lightStart_prop = Some (js ''25:00''),
      darkStart_prop = Some (js ''20:00''), defaultMode_prop = None, storageKey_prop = None,
      applyTo_prop = None\<rparr>) = js ''22:00''"
  using mergedConfig_parseable[of "\<lparr>lightStart_prop = Some (js ''25:00''),
      darkStart_prop = Some (js ''20:00''), defaultMode_prop = None, storageKey_prop = None,
      applyTo_prop = None\<rparr>"]
  by (simp add: spread_def isValidTimeConfig_def parse_2500)

section \<open>Claims about the persistence of the mode\<close>

lemmas eff_defs = js_return_def js_throw_def js_bind_def js_try_def localStorage_def

lemma isStorageAvailable_returns:
  "\<exists>b s'. isStorageAvailable window s = (Inr b, s')"
  by (cases window)
     (auto simp: isStorageAvailable_def eff_defs Let_def split: prod.splits sum.splits)

lemma isStorageAvailable_None: "isStorageAvailable None s = (Inr False, s)"
  by (simp add: isStorageAvailable_def eff_defs)

lemma isStorageAvailable_cases:
  obtains (unavailable) s1 where "isStorageAvailable window s = (Inr False, s1)"
  | (available) ls s1 where "window = Some ls" and "isStorageAvailable window s = (Inr True, s1)"
proof (cases window)
  case None
  then show ?thesis using unavailable[of s] by (simp add: isStorageAvailable_None)
next
  case (Some ls)
  obtain b s1 where av: "isStorageAvailable window s = (Inr b, s1)"
    using isStorageAvailable_returns[of window s] by blast
  show ?thesis
  proof (cases b)
    case True
    then show ?thesis using available[of ls s1] Some av by simp
  next
    case False
    then show ?thesis using unavailable[of s1] av by simp
  qed
qed

lemma getStoredMode_unavailable:
  assumes "isStorageAvailable window s = (Inr False, s1)"
  shows "getStoredMode window key s = (Inr None, s1)"
  using assms by (simp add: getStoredMode_def js_bind_def js_return_def)

lemma getStoredMode_available:
  assumes "isStorageAvailable (Some ls) s = (Inr True, s1)"
  shows "getStoredMode (Some ls) key s =
           (case getItem ls key s1 of
              (Inl e, s2) \<Rightarrow> (Inr None, s2)
            | (Inr stored, s2) \<Rightarrow>
                (Inr (if stored = Some (js ''auto'') \<or> stored = Some (js ''light'') \<or>
                         stored = Some (js ''dark'') then stored else None), s2))"
  using assms by (simp add: getStoredMode_def eff_defs split: prod.splits sum.splits)

lemma storeMode_unavailable:
  assumes "isStorageAvailable window s = (Inr False, s1)"
  shows "storeMode window mode key s = (Inr False, s1)"
  using assms by (simp add: storeMode_def js_bind_def js_return_def)

lemma storeMode_available:
  assumes "isStorageAvailable (Some ls) s = (Inr True, s1)"
  shows "storeMode (Some ls) mode key s =
           (case setItem ls key mode s1 of
              (Inl e, s2) \<Rightarrow> (Inr False, s2)
            | (Inr u, s2) \<Rightarrow> (Inr True, s2))"
  using assms by (simp add: storeMode_def eff_defs split: prod.splits sum.splits)

lemma clearStoredMode_unavailable:
  assumes "isStorageAvailable window s = (Inr False, s1)"
  shows "clearStoredMode window key s = (Inr False, s1)"
  using assms by (simp add: clearStoredMode_def js_bind_def js_return_def)

lemma clearStoredMode_available:
  assumes "isStorageAvailable (Some ls) s = (Inr True, s1)"
  shows "clearStoredMode (Some ls) key s =
           (case removeItem ls key s1 of
              (Inl e, s2) \<Rightarrow> (Inr False, s2)
            | (Inr u, s2) \<Rightarrow> (Inr True, s2))"
  using assms by (simp add: clearStoredMode_def eff_defs split: prod.splits sum.splits)

lemma getStoredMode_returns:
  "\<exists>r s'. getStoredMode window key s = (Inr r, s') \<and>
            (r = None \<or> r = Some (js ''auto'') \<or> r = Some (js ''light'') \<or>
             r = Some (js ''dark''))"
proof (cases rule: isStorageAvailable_cases[of window s])
  case (unavailable s1)
  then show ?thesis by (auto simp: getStoredMode_unavailable)
next
  case (available ls s1)
  then show ?thesis
    by (auto simp: getStoredMode_available split: prod.splits sum.splits)
qed

lemma storeMode_returns: "\<exists>b s'. storeMode window mode key s = (Inr b, s')"
proof (cases rule: isStorageAvailable_cases[of window s])
  case (unavailable s1)
  then show ?thesis by (auto simp: storeMode_unavailable)
next
  case (available ls s1)
  then show ?thesis
    by (auto simp: storeMode_available split: prod.splits sum.splits)
qed

lemma clearStoredMode_returns: "\<exists>b s'. clearStoredMode window key s = (Inr b, s')"
proof (cases rule: isStorageAvailable_cases[of window s])
  case (unavailable s1)
  then show ?thesis by (auto simp: clearStoredMode_unavailable)
next
  case (available ls s1)
  then show ?thesis
    by (auto simp: clearStoredMode_available split: prod.splits sum.splits)
qed

text \<open>The availability probe on the hosts of the examples.\<close>

lemma isStorageAvailable_memoryStorage:
  "isStorageAvailable (Some memoryStorage) s = (Inr True, s(js ''__storage_test__'' := None))"
  by (simp add: isStorageAvailable_def eff_defs Let_def memoryStorage_def)

lemma isStorageAvailable_lockedStorage:
  "isStorageAvailable (Some lockedStorage) s = (Inr True, s(js ''__storage_test__'' := None))"
  by (simp add: isStorageAvailable_def eff_defs Let_def memoryStorage_def lockedStorage_def)

lemma isStorageAvailable_fullStorage:
  "isStorageAvailable (Some fullStorage) s = (Inr False, s)"
  by (simp add: isStorageAvailable_def eff_defs Let_def memoryStorage_def fullStorage_def)

lemma isStorageAvailable_lockedStorage_empty:
  "isStorageAvailable (Some lockedStorage) Map.empty = (Inr True, Map.empty)"
  by (simp add: isStorageAvailable_lockedStorage)

lemma getItem_lockedStorage_key:
  "getItem lockedStorage DEFAULT_STORAGE_KEY s = (Inl (HostError (js ''SecurityError'')), s)"
  by (simp add: lockedStorage_def DEFAULT_STORAGE_KEY_def js_def js_throw_def)

lemma setItem_lockedStorage_key:
  "setItem lockedStorage DEFAULT_STORAGE_KEY v s =
     (Inl (HostError (js ''QuotaExceededError'')), s)"
  by (simp add: lockedStorage_def DEFAULT_STORAGE_KEY_def js_def js_throw_def)

lemma removeItem_lockedStorage_key:
  "removeItem lockedStorage DEFAULT_STORAGE_KEY s = (Inl (HostError (js ''SecurityError'')), s)"
  by (simp add: lockedStorage_def DEFAULT_STORAGE_KEY_def js_def js_throw_def)

lemma isStorageAvailable_memoryStorage_key:
  "isStorageAvailable (Some memoryStorage) [DEFAULT_STORAGE_KEY \<mapsto> v] =
     (Inr True, [DEFAULT_STORAGE_KEY \<mapsto> v])"
  by (simp add: isStorageAvailable_memoryStorage DEFAULT_STORAGE_KEY_def js_def)

lemma getItem_memoryStorage_key:
  "getItem memoryStorage DEFAULT_STORAGE_KEY [DEFAULT_STORAGE_KEY \<mapsto> v] =
     (Inr (Some v), [DEFAULT_STORAGE_KEY \<mapsto> v])"
  by (simp add: memoryStorage_def)

text \<open>
  C9. \<open>getStoredMode\<close>, \<open>storeMode\<close> and \<open>clearStoredMode\<close> return a value on every
  host, in every state, for every key and mode: none of them throws. Without a
  \<^verbatim>\<open>window\<close> they return \<^verbatim>\<open>null\<close>, \<^verbatim>\<open>false\<close> and \<^verbatim>\<open>false\<close> and leave the state
  as it was; when the availability probe fails they return the same; and when the
  probe passes but the access to the store throws, they return the same again.
\<close>

theorem storage_never_throws:
  "(\<exists>r s'. getStoredMode window key s = (Inr r, s')) \<and>
   (\<exists>b s'. storeMode window mode key s = (Inr b, s')) \<and>
   (\<exists>b s'. clearStoredMode window key s = (Inr b, s')) \<and>
   (window = None \<longrightarrow>
      getStoredMode window key s = (Inr None, s) \<and>
      storeMode window mode key s = (Inr False, s) \<and>
      clearStoredMode window key s = (Inr False, s)) \<and>
   (isStorageAvailable window s = (Inr False, s1) \<longrightarrow>
      getStoredMode window key s = (Inr None, s1) \<and>
      storeMode window mode key s = (Inr False, s1) \<and>
      clearStoredMode window key s = (Inr False, s1)) \<and>
   (window = Some ls \<and> isStorageAvailable window s = (Inr True, s1) \<longrightarrow>
      (getItem ls key s1 = (Inl e, s2) \<longrightarrow> getStoredMode window key s = (Inr None, s2)) \<and>
      (setItem ls key mode s1 = (Inl e, s2) \<longrightarrow>
          storeMode window mode key s = (Inr False, s2)) \<and>
      (removeItem ls key s1 = (Inl e, s2) \<longrightarrow>
          clearStoredMode window key s = (Inr False, s2)))"
proof (intro conjI)
  show "\<exists>r s'. getStoredMode window key s = (Inr r, s')"
    using getStoredMode_returns[of window key s] by blast
  show "\<exists>b s'. storeMode window mode key s = (Inr b, s')"
    by (rule storeMode_returns)
  show "\<exists>b s'. clearStoredMode window key s = (Inr b, s')"
    by (rule clearStoredMode_returns)
  show "window = None \<longrightarrow>
      getStoredMode window key s = (Inr None, s) \<and>
      storeMode window mode key s = (Inr False, s) \<and>
      clearStoredMode window key s = (Inr False, s)"
    by (simp add: getStoredMode_unavailable storeMode_unavailable clearStoredMode_unavailable
        isStorageAvailable_None)
  show "isStorageAvailable window s = (Inr False, s1) \<longrightarrow>
      getStoredMode window key s = (Inr None, s1) \<and>
      storeMode window mode key s = (Inr False, s1) \<and>
      clearStoredMode window key s = (Inr False, s1)"
    by (simp add: getStoredMode_unavailable storeMode_unavailable clearStoredMode_unavailable)
  show "window = Some ls \<and> isStorageAvailable window s = (Inr True, s1) \<longrightarrow>
      (getItem ls key s1 = (Inl e, s2) \<longrightarrow> getStoredMode window key s = (Inr None, s2)) \<and>
      (setItem ls key mode s1 = (Inl e, s2) \<longrightarrow>
          storeMode window mode key s = (Inr False, s2)) \<and>
      (removeItem ls key s1 = (Inl e, s2) \<longrightarrow>
          clearStoredMode window key s = (Inr False, s2))"
    by (auto simp: getStoredMode_available storeMode_available clearStoredMode_available)
qed

theorem storage_never_throws_witness:
  "getStoredMode None DEFAULT_STORAGE_KEY (Map.empty :: jsstring \<rightharpoonup> jsstring) =
     (Inr None, Map.empty) \<and>
   storeMode None (js ''dark'') DEFAULT_STORAGE_KEY (Map.empty :: jsstring \<rightharpoonup> jsstring) =
     (Inr False, Map.empty) \<and>
   clearStoredMode None DEFAULT_STORAGE_KEY (Map.empty :: jsstring \<rightharpoonup> jsstring) =
     (Inr False, Map.empty) \<and>
   isStorageAvailable (Some fullStorage) Map.empty = (Inr False, Map.empty) \<and>
   storeMode (Some fullStorage) (js ''dark'') DEFAULT_STORAGE_KEY Map.empty =
     (Inr False, Map.empty) \<and>
   isStorageAvailable (Some lockedStorage) Map.empty = (Inr True, Map.empty) \<and>
   getItem lockedStorage DEFAULT_STORAGE_KEY Map.empty =
     (Inl (HostError (js ''SecurityError'')), Map.empty) \<and>
   getStoredMode (Some lockedStorage) DEFAULT_STORAGE_KEY Map.empty = (Inr None, Map.empty) \<and>
   setItem lockedStorage DEFAULT_STORAGE_KEY (js ''dark'') Map.empty =
     (Inl (HostError (js ''QuotaExceededError'')), Map.empty) \<and>
   storeMode (Some lockedStorage) (js ''dark'') DEFAULT_STORAGE_KEY Map.empty =
     (Inr False, Map.empty) \<and>
   removeItem lockedStorage DEFAULT_STORAGE_KEY Map.empty =
     (Inl (HostError (js ''SecurityError'')), Map.empty) \<and>
   clearStoredMode (Some lockedStorage) DEFAULT_STORAGE_KEY Map.empty = (Inr False, Map.empty)"
  using storage_never_throws[of None DEFAULT_STORAGE_KEY "Map.empty :: jsstring \<rightharpoonup> jsstring"
      "js ''dark''"]
    storage_never_throws[of "Some fullStorage" DEFAULT_STORAGE_KEY Map.empty "js ''dark''"
      Map.empty]
    storage_never_throws[of "Some lockedStorage" DEFAULT_STORAGE_KEY Map.empty "js ''dark''"
      Map.empty lockedStorage "HostError (js ''SecurityError'')" Map.empty]
    storage_never_throws[of "Some lockedStorage" DEFAULT_STORAGE_KEY Map.empty "js ''dark''"
      Map.empty lockedStorage "HostError (js ''QuotaExceededError'')" Map.empty]
  by (simp add: isStorageAvailable_fullStorage isStorageAvailable_lockedStorage_empty
      getItem_lockedStorage_key setItem_lockedStorage_key removeItem_lockedStorage_key)

text \<open>
  C10. \<open>getStoredMode\<close> returns \<^verbatim>\<open>null\<close> or one of the strings \<^verbatim>\<open>'auto'\<close>,
  \<^verbatim>\<open>'light'\<close>, \<^verbatim>\<open>'dark'\<close>, whatever the store holds under the key: a stored string
  that is one of the three is returned, any other stored string gives \<^verbatim>\<open>null\<close>. So
  \<open>getStoredModeWithFallback\<close>, called with a default that is a mode, returns a mode.
\<close>

theorem getStoredMode_wellformed:
  "(\<exists>r s'. getStoredMode window key s = (Inr r, s') \<and>
            (r = None \<or> r = Some (js ''auto'') \<or> r = Some (js ''light'') \<or>
             r = Some (js ''dark''))) \<and>
   (window = Some ls \<and> isStorageAvailable window s = (Inr True, s1) \<and>
        getItem ls key s1 = (Inr (Some v), s2) \<longrightarrow>
        getStoredMode window key s = (Inr (if isMode v then Some v else None), s2)) \<and>
   (isMode dflt \<longrightarrow>
      (\<exists>m s'. getStoredModeWithFallback window key dflt s = (Inr m, s') \<and> isMode m))"
proof (intro conjI)
  show 1: "\<exists>r s'. getStoredMode window key s = (Inr r, s') \<and>
            (r = None \<or> r = Some (js ''auto'') \<or> r = Some (js ''light'') \<or>
             r = Some (js ''dark''))"
    by (rule getStoredMode_returns)
  show "window = Some ls \<and> isStorageAvailable window s = (Inr True, s1) \<and>
        getItem ls key s1 = (Inr (Some v), s2) \<longrightarrow>
        getStoredMode window key s = (Inr (if isMode v then Some v else None), s2)"
    by (auto simp: getStoredMode_available isMode_def)
  show "isMode dflt \<longrightarrow>
      (\<exists>m s'. getStoredModeWithFallback window key dflt s = (Inr m, s') \<and> isMode m)"
  proof
    assume d: "isMode dflt"
    from 1 obtain r s' where r: "getStoredMode window key s = (Inr r, s')"
      "r = None \<or> r = Some (js ''auto'') \<or> r = Some (js ''light'') \<or> r = Some (js ''dark'')"
      by blast
    then show "\<exists>m s'. getStoredModeWithFallback window key dflt s = (Inr m, s') \<and> isMode m"
      using d by (auto simp: getStoredModeWithFallback_def js_bind_def js_return_def isMode_def)
  qed
qed

theorem getStoredMode_wellformed_witness:
  "isStorageAvailable (Some memoryStorage) [DEFAULT_STORAGE_KEY \<mapsto> js ''sepia''] =
     (Inr True, [DEFAULT_STORAGE_KEY \<mapsto> js ''sepia'']) \<and>
   getItem memoryStorage DEFAULT_STORAGE_KEY [DEFAULT_STORAGE_KEY \<mapsto> js ''sepia''] =
     (Inr (Some (js ''sepia'')), [DEFAULT_STORAGE_KEY \<mapsto> js ''sepia'']) \<and>
   \<not> isMode (js ''sepia'') \<and>
   getStoredMode (Some memoryStorage) DEFAULT_STORAGE_KEY [DEFAULT_STORAGE_KEY \<mapsto> js ''sepia''] =
     (Inr None, [DEFAULT_STORAGE_KEY \<mapsto> js ''sepia'']) \<and>
   isMode (js ''dark'') \<and>
   getStoredMode (Some memoryStorage) DEFAULT_STORAGE_KEY [DEFAULT_STORAGE_KEY \<mapsto> js ''dark''] =
     (Inr (Some (js ''dark'')), [DEFAULT_STORAGE_KEY \<mapsto> js ''dark'']) \<and>
   isMode (js ''auto'')"
  using getStoredMode_wellformed[of "Some memoryStorage" DEFAULT_STORAGE_KEY
      "[DEFAULT_STORAGE_KEY \<mapsto> js ''sepia'']" memoryStorage
      "[DEFAULT_STORAGE_KEY \<mapsto> js ''sepia'']" "js ''sepia''"
      "[DEFAULT_STORAGE_KEY \<mapsto> js ''sepia'']" "js ''auto''"]
    getStoredMode_wellformed[of "Some memoryStorage" DEFAULT_STORAGE_KEY
      "[DEFAULT_STORAGE_KEY \<mapsto> js ''dark'']" memoryStorage
      "[DEFAULT_STORAGE_KEY \<mapsto> js ''dark'']" "js ''dark''"
      "[DEFAULT_STORAGE_KEY \<mapsto> js ''dark'']" "js ''auto''"]
  by (simp add: isStorageAvailable_memoryStorage_key getItem_memoryStorage_key isMode_def
      js_def)

end
